theory Spec2Isabelle
  imports Complex_Main "HOL-Library.Word" "HOL-Library.Multiset"
begin

unbundle bit_operations_syntax

section \<open>The Python library functions the models call\<close>

text \<open>
  A Python \<open>str\<close> is modelled as a \<open>string\<close> whose characters are the code points
  0 to 255 (Latin-1); this covers every string the models build (decimal renderings of
  ids, hexadecimal digests) and every phone number and address below code point 256.
\<close>

subsection \<open>\<open>str.startswith\<close>, \<open>str.isdigit\<close>, \<open>str\<close> of an \<open>int\<close>\<close>

definition startswith :: "string \<Rightarrow> string \<Rightarrow> bool" where
  "startswith s prefix = (take (length prefix) s = prefix)"

text \<open>
  \<open>str.isdigit\<close> is true when the string is not empty and every character is a digit.
  Python counts as a digit every character with the Unicode property \<open>Numeric_Type\<close>
  \<open>Digit\<close> or \<open>Decimal\<close>: below code point 256 these are \<open>0\<close> to \<open>9\<close> (code points 48
  to 57) and the superscripts two, three and one (code points 178, 179 and 185).
\<close>

definition isdigit_char :: "char \<Rightarrow> bool" where
  "isdigit_char c =
     (let n = (of_char c :: nat) in (48 \<le> n \<and> n \<le> 57) \<or> n = 178 \<or> n = 179 \<or> n = 185)"

definition isdigit :: "string \<Rightarrow> bool" where
  "isdigit s = (s \<noteq> [] \<and> list_all isdigit_char s)"

text \<open>The decimal digits proper (\<open>str.isdecimal\<close> on one character below code point 256).\<close>

definition isdecimal_char :: "char \<Rightarrow> bool" where
  "isdecimal_char c = (let n = (of_char c :: nat) in 48 \<le> n \<and> n \<le> 57)"

definition digit_char :: "nat \<Rightarrow> char" where
  "digit_char d = ''0123456789'' ! (d mod 10)"

function str_nat :: "nat \<Rightarrow> string" where
  "str_nat n = (if n < 10 then [digit_char n] else str_nat (n div 10) @ [digit_char (n mod 10)])"
  by pat_completeness auto
termination
  by (relation "measure (\<lambda>n. n)") auto

declare str_nat.simps [simp del]

text \<open>\<open>str(i)\<close> for an \<open>int\<close>: the decimal digits, after a minus sign when negative.\<close>

definition str_int :: "int \<Rightarrow> string" where
  "str_int i = (if i < 0 then CHR ''-'' # str_nat (nat (- i)) else str_nat (nat i))"

text \<open>The number a string of decimal digits denotes, to state what \<open>str\<close> renders.\<close>

definition decimal_value :: "string \<Rightarrow> nat" where
  "decimal_value s = foldl (\<lambda>v c. 10 * v + (of_char c - 48)) 0 s"

subsection \<open>\<open>str.encode\<close> (UTF-8)\<close>

definition encode_char :: "char \<Rightarrow> 8 word list" where
  "encode_char c =
     (let n = (of_char c :: nat) in
      if n < 128 then [word_of_nat n]
      else [word_of_nat (192 + n div 64), word_of_nat (128 + n mod 64)])"

definition encode :: "string \<Rightarrow> 8 word list" where
  "encode s = concat (map encode_char s)"

subsection \<open>\<open>hashlib.md5\<close> (RFC 1321)\<close>

definition md5_K :: "32 word list" where
  "md5_K = [
     0xd76aa478, 0xe8c7b756, 0x242070db, 0xc1bdceee,
     0xf57c0faf, 0x4787c62a, 0xa8304613, 0xfd469501,
     0x698098d8, 0x8b44f7af, 0xffff5bb1, 0x895cd7be,
     0x6b901122, 0xfd987193, 0xa679438e, 0x49b40821,
     0xf61e2562, 0xc040b340, 0x265e5a51, 0xe9b6c7aa,
     0xd62f105d, 0x02441453, 0xd8a1e681, 0xe7d3fbc8,
     0x21e1cde6, 0xc33707d6, 0xf4d50d87, 0x455a14ed,
     0xa9e3e905, 0xfcefa3f8, 0x676f02d9, 0x8d2a4c8a,
     0xfffa3942, 0x8771f681, 0x6d9d6122, 0xfde5380c,
     0xa4beea44, 0x4bdecfa9, 0xf6bb4b60, 0xbebfbc70,
     0x289b7ec6, 0xeaa127fa, 0xd4ef3085, 0x04881d05,
     0xd9d4d039, 0xe6db99e5, 0x1fa27cf8, 0xc4ac5665,
     0xf4292244, 0x432aff97, 0xab9423a7, 0xfc93a039,
     0x655b59c3, 0x8f0ccc92, 0xffeff47d, 0x85845dd1,
     0x6fa87e4f, 0xfe2ce6e0, 0xa3014314, 0x4e0811a1,
     0xf7537e82, 0xbd3af235, 0x2ad7d2bb, 0xeb86d391]"

definition md5_s :: "nat list" where
  "md5_s = [
     7, 12, 17, 22, 7, 12, 17, 22, 7, 12, 17, 22, 7, 12, 17, 22,
     5, 9, 14, 20, 5, 9, 14, 20, 5, 9, 14, 20, 5, 9, 14, 20,
     4, 11, 16, 23, 4, 11, 16, 23, 4, 11, 16, 23, 4, 11, 16, 23,
     6, 10, 15, 21, 6, 10, 15, 21, 6, 10, 15, 21, 6, 10, 15, 21]"

type_synonym md5_state = "32 word \<times> 32 word \<times> 32 word \<times> 32 word"

text \<open>One of the 64 operations on a block \<open>M\<close> of sixteen 32-bit words.\<close>

definition md5_step :: "32 word list \<Rightarrow> md5_state \<Rightarrow> nat \<Rightarrow> md5_state" where
  "md5_step M st i =
     (case st of (A, B, C, D) \<Rightarrow>
        let (F, g) =
              (if i < 16 then ((B AND C) OR (NOT B AND D), i)
               else if i < 32 then ((D AND B) OR (NOT D AND C), (5 * i + 1) mod 16)
               else if i < 48 then (B XOR C XOR D, (3 * i + 5) mod 16)
               else (C XOR (B OR NOT D), (7 * i) mod 16));
            F' = F + A + md5_K ! i + M ! g
        in (D, B + word_rotl (md5_s ! i) F', B, C))"

text \<open>Bytes to a word and back, least significant byte first.\<close>

definition le_word :: "8 word list \<Rightarrow> 32 word" where
  "le_word bs = foldr (\<lambda>b w. push_bit 8 w OR ucast b) bs 0"

definition word_bytes :: "32 word \<Rightarrow> 8 word list" where
  "word_bytes w = map (\<lambda>i. ucast (drop_bit (8 * i) w)) [0..<4]"

fun chunks :: "nat \<Rightarrow> 'a list \<Rightarrow> 'a list list" where
  "chunks n [] = []"
| "chunks n xs = (if n = 0 then [xs] else take n xs # chunks n (drop n xs))"

text \<open>
  Padding: the byte \<open>0x80\<close>, zero bytes up to 56 modulo 64, then the length of the
  message in bits as a 64-bit number, least significant byte first.
\<close>

definition md5_pad :: "8 word list \<Rightarrow> 8 word list" where
  "md5_pad msg =
     msg @ [0x80] @ replicate ((119 - length msg mod 64) mod 64) 0 @
     map (\<lambda>i. ucast (drop_bit (8 * i) (word_of_nat (8 * length msg) :: 64 word))) [0..<8]"

definition md5_block :: "md5_state \<Rightarrow> 8 word list \<Rightarrow> md5_state" where
  "md5_block st blk =
     (let M = map le_word (chunks 4 blk) in
      case st of (A, B, C, D) \<Rightarrow>
        (case foldl (md5_step M) st [0..<64] of
           (A', B', C', D') \<Rightarrow> (A + A', B + B', C + C', D + D')))"

definition md5_digest :: "8 word list \<Rightarrow> 8 word list" where
  "md5_digest msg =
     (case foldl md5_block (0x67452301, 0xefcdab89, 0x98badcfe, 0x10325476)
             (chunks 64 (md5_pad msg)) of
        (A, B, C, D) \<Rightarrow> concat (map word_bytes [A, B, C, D]))"

definition hex_byte :: "8 word \<Rightarrow> string" where
  "hex_byte b =
     [''0123456789abcdef'' ! (unat b div 16), ''0123456789abcdef'' ! (unat b mod 16)]"

definition hexdigest :: "8 word list \<Rightarrow> string" where
  "hexdigest bs = concat (map hex_byte bs)"

text \<open>\<open>hashlib.md5(s.encode()).hexdigest()\<close>\<close>

definition md5_hexdigest :: "string \<Rightarrow> string" where
  "md5_hexdigest s = hexdigest (md5_digest (encode s))"

subsection \<open>\<open>float\<close>: addition, \<open>sum\<close> and \<open>round\<close>\<close>

text \<open>
  A Python \<open>float\<close> is an IEEE 754 double, kept as its 64 bits: the sign, eleven bits
  of exponent and 52 bits of fraction. A finite double denotes a rational number; an
  operation computes on these numbers exactly and rounds the result to the nearest
  double, to the even one of two equally near. Every NaN is written as the one pattern
  \<open>float_nan\<close>.
\<close>

type_synonym pyfloat = "64 word"

definition float_sign :: "pyfloat \<Rightarrow> bool" where
  "float_sign x = bit x 63"

definition float_exponent :: "pyfloat \<Rightarrow> int" where
  "float_exponent x = uint (take_bit 11 (drop_bit 52 x))"

definition float_fraction :: "pyfloat \<Rightarrow> int" where
  "float_fraction x = uint (take_bit 52 x)"

definition isfinite :: "pyfloat \<Rightarrow> bool" where
  "isfinite x = (float_exponent x \<noteq> 2047)"

definition isnan :: "pyfloat \<Rightarrow> bool" where
  "isnan x = (float_exponent x = 2047 \<and> float_fraction x \<noteq> 0)"

definition pow2 :: "int \<Rightarrow> rat" where
  "pow2 k =
     (if 0 \<le> k then of_int (push_bit (nat k) 1) else 1 / of_int (push_bit (nat (- k)) 1))"

text \<open>The number a finite double denotes (\<open>4503599627370496\<close> is \<open>2\<close> to the \<open>52\<close>).\<close>

definition float_value :: "pyfloat \<Rightarrow> rat" where
  "float_value x =
     (let e = float_exponent x; f = float_fraction x;
          m = (if e = 0 then of_int f * pow2 (- 1074)
               else of_int (4503599627370496 + f) * pow2 (e - 1075))
      in if float_sign x then - m else m)"

definition round_half_even :: "rat \<Rightarrow> int" where
  "round_half_even q =
     (let n = \<lfloor>q\<rfloor>; d = q - of_int n
      in if d < 1 / 2 then n else if 1 / 2 < d then n + 1 else if even n then n else n + 1)"

function bit_length :: "int \<Rightarrow> int" where
  "bit_length n = (if n \<le> 0 then 0 else 1 + bit_length (n div 2))"
  by pat_completeness auto
termination
  by (relation "measure nat") auto

declare bit_length.simps [simp del]

text \<open>The greatest \<open>l\<close> with \<open>pow2 l \<le> a\<close>, for a positive \<open>a\<close>.\<close>

definition floor_log2 :: "rat \<Rightarrow> int" where
  "floor_log2 a =
     (case quotient_of a of (p, d) \<Rightarrow>
        let l = bit_length p - bit_length d
        in if pow2 l \<le> a then l else l - 1)"

definition float_make :: "bool \<Rightarrow> int \<Rightarrow> int \<Rightarrow> pyfloat" where
  "float_make s e f =
     (if s then 0x8000000000000000 else 0) OR push_bit 52 (word_of_int e) OR word_of_int f"

definition float_nan :: pyfloat where
  "float_nan = 0x7FF8000000000000"

text \<open>
  The double nearest to a rational: the exponent is fixed by the magnitude (not below
  that of the subnormal numbers), the significand is rounded to an integer, and a
  significand that rounds up to \<open>2\<close> to the \<open>53\<close> moves to the next exponent; beyond the
  largest exponent the result is an infinity. \<open>neg\<close> is the sign of a zero result.
\<close>

definition float_of_rat :: "bool \<Rightarrow> rat \<Rightarrow> pyfloat" where
  "float_of_rat neg q =
     (if q = 0 then float_make neg 0 0
      else
        let a = \<bar>q\<bar>;
            e = max 1 (floor_log2 a + 1023);
            n = round_half_even (a * pow2 (1075 - e));
            e' = (if 9007199254740992 \<le> n then e + 1 else e);
            n' = (if 9007199254740992 \<le> n then 4503599627370496 else n)
        in if 2047 \<le> e' then float_make (q < 0) 2047 0
           else if n' < 4503599627370496 then float_make (q < 0) 0 n'
           else float_make (q < 0) e' (n' - 4503599627370496))"

text \<open>\<open>x + y\<close>: a sum that is zero is negative only when both operands are.\<close>

definition float_add :: "pyfloat \<Rightarrow> pyfloat \<Rightarrow> pyfloat" where
  "float_add x y =
     (if isnan x \<or> isnan y then float_nan
      else if \<not> isfinite x then
        (if \<not> isfinite y \<and> float_sign x \<noteq> float_sign y then float_nan else x)
      else if \<not> isfinite y then y
      else float_of_rat (float_sign x \<and> float_sign y) (float_value x + float_value y))"

text \<open>
  \<open>round(x, 2)\<close> of a \<open>float\<close>: the exact value of \<open>x\<close> is rounded to a multiple of one
  hundredth, to the even multiple when it lies half-way, and the double nearest to
  that multiple is returned; a zero result keeps the sign of \<open>x\<close>, an infinity and a
  NaN are returned as they are.
\<close>

definition float_round2 :: "pyfloat \<Rightarrow> pyfloat" where
  "float_round2 x =
     (if \<not> isfinite x then x
      else float_of_rat (float_sign x) (of_int (round_half_even (float_value x * 100)) / 100))"




section \<open>The entities of \<open>models.py\<close>\<close>

datatype error = AssertionError | AttributeError | NotFound | IntegrityError

text \<open>A \<open>datetime\<close> is the reading of the clock in microseconds.\<close>

type_synonym datetime = nat

record Customer =
  Customer_name :: string
  email :: string
  phone_number :: string

record Category =
  Category_id :: int
  Category_name :: string

text \<open>
  \<open>Books_new\<close> is a \<open>Books\<close> object as \<open>Books.__init__\<close> leaves it: every column but
  \<open>id\<close>, which is \<open>None\<close> until the session flushes the object. \<open>Books\<close> is a row of the
  table \<open>books\<close>, with the primary key the store has assigned. \<open>cost\<close> is the double
  that the column of type \<open>Float\<close> holds.
\<close>

record Books_new =
  ISBN :: string
  category_id :: int
  cost :: pyfloat
  description :: "string option"
  Books_currency_id :: int

record Books = Books_new +
  Books_id :: int

text \<open>
  A \<open>Transaction\<close> with its books: the object under construction holds what the caller
  passed, a row of the table \<open>transaction\<close> holds rows of \<open>books\<close>, each once, as the
  table \<open>association_books_transactions\<close> relates them.
\<close>

record 'b Transaction =
  transaction_hash :: string
  customer_id :: int
  date :: datetime
  currency_id :: int
  books :: "'b list"

text \<open>
  An element of the list a caller passes as \<open>books\<close>. A \<open>Books\<close> object is in one of
  four states:
  \<^item> \<open>BooksObj\<close>, persistent: it belongs to \<open>db.session\<close> and has its \<open>id\<close> (a row the
    session has loaded or flushed);
  \<^item> \<open>DetachedBooksObj\<close>, detached: a row with its \<open>id\<close>, held by an object that
    belongs to no session;
  \<^item> \<open>PendingBooksObj\<close>, pending: added to \<open>db.session\<close> and not flushed yet; the
    tables list its row, with the key the flush gives it, while its attribute \<open>id\<close>
    is still \<open>None\<close>;
  \<^item> \<open>NewBooksObj\<close>, transient: just constructed, in no session, its \<open>id\<close> still
    \<open>None\<close>; each such element is an object of its own.

  \<open>OtherObj\<close> is an object of another class, of which only \<open>str(obj.id)\<close> matters:
  \<open>None\<close> when the object has no attribute \<open>id\<close>.
\<close>

datatype pyobj =
  BooksObj Books
| DetachedBooksObj Books
| PendingBooksObj Books
| NewBooksObj Books_new
| OtherObj "string option"

text \<open>\<open>isinstance(obj, Books)\<close>\<close>

fun is_Books :: "pyobj \<Rightarrow> bool" where
  "is_Books (OtherObj a) = False"
| "is_Books obj = True"

text \<open>The attribute \<open>id\<close> of a \<open>Books\<close> object: \<open>None\<close> until the object is flushed.\<close>

fun id_attr :: "pyobj \<Rightarrow> int option" where
  "id_attr (BooksObj book) = Some (Books_id book)"
| "id_attr (DetachedBooksObj book) = Some (Books_id book)"
| "id_attr obj = None"

text \<open>Whether the object belongs to \<open>db.session\<close>.\<close>

fun in_session :: "pyobj \<Rightarrow> bool" where
  "in_session (BooksObj book) = True"
| "in_session (PendingBooksObj book) = True"
| "in_session obj = False"

text \<open>
  The tables as \<open>db.session\<close> sees them. The session flushes what is pending before
  every query and at every commit, and the models never roll back: an object that has
  entered the session is a row to every later statement, and is listed here from then
  on. \<open>description_default\<close> is the value of \<open>urandom(200)\<close> that the class \<open>Books\<close> took
  as the default of its column \<open>description\<close> when the module was loaded.
\<close>

record database =
  category_table :: "Category list"
  books_table :: "Books list"
  transaction_table :: "Books Transaction list"
  description_default :: string

section \<open>\<open>Customer\<close>\<close>

definition validate_email :: "string \<Rightarrow> error + string" where
  "validate_email address =
     (if CHR ''@'' \<in> set address then Inr address else Inl AssertionError)"

definition validate_phone_number :: "string \<Rightarrow> error + string" where
  "validate_phone_number number =
     (if \<not> (startswith number ''8'' \<or> startswith number ''+7'') then Inl AssertionError
      else if startswith number ''+'' \<and> \<not> isdigit (drop 1 number) then Inl AssertionError
      else Inr number)"

text \<open>
  \<open>Customer.__init__\<close> assigns \<open>name\<close>, \<open>email\<close> and \<open>phone_number\<close> in this order; the
  validators run on the assignments, and a failed \<open>assert\<close> leaves no object.
\<close>

definition Customer_init :: "string \<Rightarrow> string \<Rightarrow> string \<Rightarrow> error + Customer" where
  "Customer_init name email' phone =
     (case validate_email email' of
        Inl e \<Rightarrow> Inl e
      | Inr address \<Rightarrow>
          (case validate_phone_number phone of
             Inl e \<Rightarrow> Inl e
           | Inr number \<Rightarrow>
               Inr \<lparr>Customer_name = name, email = address, phone_number = number\<rparr>))"

section \<open>\<open>Books\<close>\<close>

definition Books_init :: "string \<Rightarrow> int \<Rightarrow> pyfloat \<Rightarrow> int \<Rightarrow> string option \<Rightarrow> Books_new" where
  "Books_init isbn category cost' currency description' =
     \<lparr>ISBN = isbn, category_id = category, cost = cost',
      description = description', Books_currency_id = currency\<rparr>"

text \<open>
  The key of the next row (\<open>autoincrement\<close>): one more than the largest key in the
  table, and 1 in an empty table.
\<close>

definition next_id :: "Books list \<Rightarrow> int" where
  "next_id rows = (case map Books_id rows of [] \<Rightarrow> 1 | k # ks \<Rightarrow> fold max ks k + 1)"

text \<open>
  The row that the flush of a new \<open>Books\<close> inserts: the store assigns the key, and a
  \<open>description\<close> that is \<open>None\<close> is left out of the \<open>INSERT\<close>, so that the column takes
  its default.
\<close>

definition insert_row :: "database \<Rightarrow> Books_new \<Rightarrow> Books" where
  "insert_row db new =
     \<lparr>ISBN = ISBN new, category_id = category_id new, cost = cost new,
      description =
        (case description new of None \<Rightarrow> Some (description_default db) | Some d \<Rightarrow> Some d),
      Books_currency_id = Books_currency_id new,
      Books_id = next_id (books_table db)\<rparr>"

text \<open>\<open>Category.query.filter(Category.name == category).first_or_404()\<close>\<close>

definition first_or_404 :: "database \<Rightarrow> string \<Rightarrow> error + Category" where
  "first_or_404 db name =
     (case find (\<lambda>c. Category_name c = name) (category_table db) of
        None \<Rightarrow> Inl NotFound
      | Some c \<Rightarrow> Inr c)"

text \<open>
  \<open>add_book\<close>: the commit inserts the row, unless a row has the \<open>ISBN\<close> already
  (\<open>unique\<close>); the store then refuses it and nothing is kept.
\<close>

definition add_book ::
  "string \<Rightarrow> string \<Rightarrow> pyfloat \<Rightarrow> int \<Rightarrow> database \<Rightarrow> (error + unit) \<times> database" where
  "add_book isbn category cost' currency db =
     (case first_or_404 db category of
        Inl e \<Rightarrow> (Inl e, db)
      | Inr c \<Rightarrow>
          (let book = Books_init isbn (Category_id c) cost' currency None in
           if list_ex (\<lambda>b. ISBN b = isbn) (books_table db) then (Inl IntegrityError, db)
           else (Inr (), db\<lparr>books_table := books_table db @ [insert_row db book]\<rparr>)))"

section \<open>\<open>Transaction\<close>\<close>

subsection \<open>The constructor and the session\<close>

text \<open>
  The loop of \<open>Transaction.__init__\<close>: each element is asserted to be a \<open>Books\<close> and
  appended to \<open>self.books\<close>. The result is the failure, if any, and what had been
  appended by then.
\<close>

fun append_books :: "pyobj list \<Rightarrow> pyobj list \<Rightarrow> error option \<times> pyobj list" where
  "append_books acc [] = (None, acc)"
| "append_books acc (book # rest) =
     (if is_Books book then append_books (acc @ [book]) rest else (Some AssertionError, acc))"

text \<open>
  The rows for the books of a flushed \<open>Transaction\<close>, in the order of the list: a
  transient \<open>Books\<close> is inserted, unless a row has its \<open>ISBN\<close> already; the others have
  their rows.
\<close>

fun flush_books :: "pyobj list \<Rightarrow> database \<Rightarrow> error + Books list \<times> database" where
  "flush_books [] db = Inr ([], db)"
| "flush_books (BooksObj book # rest) db =
     (case flush_books rest db of
        Inl e \<Rightarrow> Inl e
      | Inr (rows, db') \<Rightarrow> Inr (book # rows, db'))"
| "flush_books (DetachedBooksObj book # rest) db =
     (case flush_books rest db of
        Inl e \<Rightarrow> Inl e
      | Inr (rows, db') \<Rightarrow> Inr (book # rows, db'))"
| "flush_books (PendingBooksObj book # rest) db =
     (case flush_books rest db of
        Inl e \<Rightarrow> Inl e
      | Inr (rows, db') \<Rightarrow> Inr (book # rows, db'))"
| "flush_books (NewBooksObj new # rest) db =
     (if list_ex (\<lambda>b. ISBN b = ISBN new) (books_table db) then Inl IntegrityError
      else
        (case flush_books rest (db\<lparr>books_table := books_table db @ [insert_row db new]\<rparr>) of
           Inl e \<Rightarrow> Inl e
         | Inr (rows, db') \<Rightarrow> Inr (insert_row db new # rows, db')))"
| "flush_books (OtherObj a # rest) db = flush_books rest db"

text \<open>A book that was appended more than once is related to the transaction once.\<close>

fun unique_books :: "Books list \<Rightarrow> Books list" where
  "unique_books [] = []"
| "unique_books (b # bs) = b # unique_books (filter (\<lambda>c. Books_id c \<noteq> Books_id b) bs)"

text \<open>
  The flush of a \<open>Transaction\<close> object: the rows of its new books and its own row,
  unless the store refuses one of them (a second row with the primary key, a second
  book with an \<open>ISBN\<close>); then nothing of the object is kept.
\<close>

definition session_flush ::
  "pyobj Transaction \<Rightarrow> database \<Rightarrow> error + Books Transaction \<times> database" where
  "session_flush self db =
     (if list_ex (\<lambda>t. transaction_hash t = transaction_hash self) (transaction_table db)
      then Inl IntegrityError
      else
        (case flush_books (books self) db of
           Inl e \<Rightarrow> Inl e
         | Inr (rows, db') \<Rightarrow>
             (let row = \<lparr>transaction_hash = transaction_hash self,
                         customer_id = customer_id self, date = date self,
                         currency_id = currency_id self, books = unique_books rows\<rparr>
              in Inr (row, db'\<lparr>transaction_table := transaction_table db' @ [row]\<rparr>))))"

text \<open>
  \<open>Transaction.__init__\<close>; \<open>now\<close> is what \<open>datetime.now()\<close> returns. The relationship
  \<open>books\<close> is the other side of \<open>Books.transactions\<close>: appending a \<open>Books\<close> that belongs
  to the session puts the \<open>Transaction\<close> into the session too (the save-update cascade
  along the back reference), with the books appended before and after. This happens
  inside the loop, also when a later element fails the \<open>assert\<close>: the object built so
  far is then pending in the session, and the next flush stores it (unless the store
  refuses its rows; the object is then not kept).
\<close>

definition Transaction_init ::
  "datetime \<Rightarrow> string \<Rightarrow> int \<Rightarrow> int \<Rightarrow> pyobj list \<Rightarrow> database \<Rightarrow>
   (error + pyobj Transaction) \<times> database" where
  "Transaction_init now hash customer currency bs db =
     (case append_books [] bs of
        (failure, appended) \<Rightarrow>
          (let self = \<lparr>transaction_hash = hash, customer_id = customer, date = now,
                       currency_id = currency, books = appended\<rparr>;
               db' = (if list_ex in_session appended
                      then (case session_flush self db of
                              Inl e \<Rightarrow> db
                            | Inr (row, flushed) \<Rightarrow> flushed)
                      else db)
           in (case failure of None \<Rightarrow> Inr self | Some e \<Rightarrow> Inl e, db')))"

subsection \<open>\<open>create_transaction\<close>\<close>

text \<open>
  \<open>str(b.id)\<close>, and \<open>''.join(str(b.id) for b in books)\<close>. The \<open>id\<close> of a \<open>Books\<close> that
  has not been flushed is \<open>None\<close>, which \<open>str\<close> renders as \<open>None\<close>.
\<close>

fun str_id :: "pyobj \<Rightarrow> error + string" where
  "str_id (OtherObj None) = Inl AttributeError"
| "str_id (OtherObj (Some s)) = Inr s"
| "str_id book = Inr (case id_attr book of None \<Rightarrow> ''None'' | Some i \<Rightarrow> str_int i)"

fun join_ids :: "pyobj list \<Rightarrow> error + string" where
  "join_ids [] = Inr []"
| "join_ids (b # rest) =
     (case str_id b of
        Inl e \<Rightarrow> Inl e
      | Inr s \<Rightarrow> (case join_ids rest of Inl e \<Rightarrow> Inl e | Inr t \<Rightarrow> Inr (s @ t)))"

text \<open>
  The first statement of \<open>create_transaction\<close>:
  \<open>hashlib.md5((''.join(str(b.id) for b in books)).encode()).hexdigest()\<close>
\<close>

definition compute_transaction_hash :: "pyobj list \<Rightarrow> error + string" where
  "compute_transaction_hash bs =
     (case join_ids bs of Inl e \<Rightarrow> Inl e | Inr joined \<Rightarrow> Inr (md5_hexdigest joined))"

text \<open>\<open>cls.query.get(transaction_hash)\<close>: the row with this primary key, if any.\<close>

definition query_get :: "database \<Rightarrow> string \<Rightarrow> Books Transaction option" where
  "query_get db hash = find (\<lambda>t. transaction_hash t = hash) (transaction_table db)"

text \<open>
  \<open>create_transaction\<close>. When the constructor fails, the exception leaves the function
  with the session as the constructor left it. Otherwise
  \<open>db.session.add(trans); db.session.commit()\<close> flush the object (the rows are the same
  whether or not the cascade has made it pending before) and commit; when the store
  refuses a row, the commit fails and nothing of the object is kept.
\<close>

definition create_transaction ::
  "datetime \<Rightarrow> int \<Rightarrow> int \<Rightarrow> pyobj list \<Rightarrow> database \<Rightarrow>
   (error + Books Transaction) \<times> database" where
  "create_transaction now customer currency bs db =
     (case compute_transaction_hash bs of
        Inl e \<Rightarrow> (Inl e, db)
      | Inr hash \<Rightarrow>
          (case query_get db hash of
             Some trans' \<Rightarrow> (Inr trans', db)
           | None \<Rightarrow>
               (case Transaction_init now hash customer currency bs db of
                  (Inl e, db') \<Rightarrow> (Inl e, db')
                | (Inr trans', db') \<Rightarrow>
                    (case session_flush trans' db of
                       Inl e \<Rightarrow> (Inl e, db)
                     | Inr (row, committed) \<Rightarrow> (Inr row, committed)))))"

subsection \<open>\<open>total_cost\<close>\<close>


section \<open>The rows of the module's \<open>__main__\<close> block\<close>

text \<open>
  The categories and books that the module inserts when run as a script, with the keys
  they get in the order of \<open>add_all\<close>; the costs 500, 200.2 and 3000.2 as doubles, and a
  string of 200 characters for what \<open>urandom(200)\<close> returned.
\<close>

definition horrors :: Category where
  "horrors = \<lparr>Category_id = 1, Category_name = ''horrors''\<rparr>"

definition business :: Category where
  "business = \<lparr>Category_id = 2, Category_name = ''business''\<rparr>"

definition comix :: Category where
  "comix = \<lparr>Category_id = 3, Category_name = ''comix''\<rparr>"

definition main_default :: string where
  "main_default = replicate 200 (CHR ''r'')"

definition book :: Books where
  "book = \<lparr>ISBN = ''01-0101-0111'', category_id = 1, cost = 0x407f400000000000,
           description = Some main_default, Books_currency_id = 1, Books_id = 1\<rparr>"

definition book2 :: Books where
  "book2 = \<lparr>ISBN = ''01-0101-0110'', category_id = 2, cost = 0x4069066666666666,
            description = Some main_default, Books_currency_id = 1, Books_id = 2\<rparr>"

definition book3 :: Books where
  "book3 = \<lparr>ISBN = ''01-0101-0119'', category_id = 3, cost = 0x40a7706666666666,
            description = Some main_default, Books_currency_id = 1, Books_id = 3\<rparr>"

definition main_db :: database where
  "main_db =
     \<lparr>category_table = [horrors, business, comix],
      books_table = [book, book2, book3],
      transaction_table = [],
      description_default = main_default\<rparr>"

text \<open>A \<open>Books\<close> that a caller has constructed and not added to the session.\<close>

definition book4 :: Books_new where
  "book4 = Books_init ''01-0101-0120'' 1 0x4033fd70a3d70a3d 1 None"

section \<open>The library functions: checks\<close>

subsection \<open>Test vectors for the digest\<close>

lemma md5_hexdigest_empty: "md5_hexdigest [] = ''d41d8cd98f00b204e9800998ecf8427e''"
  by code_simp

lemma md5_hexdigest_12: "md5_hexdigest ''12'' = ''c20ad4d76fe97759aa27a0c99bff6710''"
  by code_simp

lemma md5_hexdigest_21: "md5_hexdigest ''21'' = ''3c59dc048e8850243be8079a5c74d079''"
  by code_simp

lemma md5_hexdigest_123: "md5_hexdigest ''123'' = ''202cb962ac59075b964b07152d234b70''"
  by code_simp

lemma md5_hexdigest_None: "md5_hexdigest ''None'' = ''6adf97f83acf6453d4a6a4b1070f3754''"
  by code_simp

lemma md5_hexdigest_4: "md5_hexdigest ''4'' = ''a87ff679a2f3e71d9181a67b7542122c''"
  by code_simp

lemma md5_hexdigest_1None: "md5_hexdigest ''1None'' = ''d4a389874b579a227b4b7615d9d43e2b''"
  by code_simp

subsection \<open>\<open>str\<close> renders a number in decimal\<close>

lemma digit_char_value: "d < 10 \<Longrightarrow> of_char (digit_char d) = 48 + d"
proof -
  assume "d < 10"
  then have "d \<in> {0, 1, 2, 3, 4, 5, 6, 7, 8, 9}" by auto
  then show ?thesis by (auto simp: digit_char_def)
qed

lemma digit_char_decimal: "isdecimal_char (digit_char d)"
proof -
  have "d mod 10 < 10" by simp
  from digit_char_value [OF this] show ?thesis
    by (simp add: isdecimal_char_def digit_char_def)
qed

lemma str_nat_decimal: "list_all isdecimal_char (str_nat n)"
  by (induction n rule: str_nat.induct) (subst str_nat.simps, simp add: digit_char_decimal)

lemma str_nat_value: "decimal_value (str_nat n) = n"
proof (induction n rule: str_nat.induct)
  case (1 n)
  show ?case
  proof (cases "n < 10")
    case True
    then show ?thesis
      by (subst str_nat.simps) (simp add: decimal_value_def digit_char_value)
  next
    case False
    have "n mod 10 < 10" by simp
    from digit_char_value [OF this] have d: "of_char (digit_char (n mod 10)) = 48 + n mod 10" .
    from False 1 have "decimal_value (str_nat (n div 10)) = n div 10" by simp
    with False d show ?thesis
      by (subst str_nat.simps) (simp add: decimal_value_def)
  qed
qed

lemma str_int_1: "str_int 1 = ''1''"
  by code_simp

lemma str_int_2: "str_int 2 = ''2''"
  by code_simp

lemma str_int_3: "str_int 3 = ''3''"
  by code_simp

lemma str_int_4: "str_int 4 = ''4''"
  by code_simp

lemma str_int_11: "str_int 11 = ''11''"
  by code_simp

lemma str_int_12: "str_int 12 = ''12''"
  by code_simp

lemma str_int_23: "str_int 23 = ''23''"
  by code_simp


subsection \<open>Doubles\<close>

text \<open>
  \<open>0.1 + 0.2\<close> is \<open>0.30000000000000004\<close>; \<open>round(2.675, 2)\<close> is \<open>2.67\<close>, the double for
  2.675 lying below it; \<open>round(0.125, 2)\<close> is \<open>0.12\<close>, the even neighbour; and
  \<open>19.99 + 5.005 + 0.005\<close>, from 0, is \<open>24.999999999999996\<close>, which \<open>round\<close> takes to 25.0.
\<close>

lemma float_add_tenths: "float_add 0x3fb999999999999a 0x3fc999999999999a = 0x3fd3333333333334"
  by code_simp

lemma float_round2_2675: "float_round2 0x4005666666666666 = 0x40055c28f5c28f5c"
  by code_simp

lemma float_round2_eighth: "float_round2 0x3fc0000000000000 = 0x3fbeb851eb851eb8"
  by code_simp




section \<open>Properties of \<open>Customer\<close>\<close>

lemma startswith_Cons: "startswith s [c] \<longleftrightarrow> (\<exists>r. s = c # r)"
  by (cases s) (auto simp: startswith_def)

text \<open>
  The check of the phone number, by characters: after a leading \<open>+7\<close> the rest of the
  string is never empty, so \<open>isdigit\<close> fails only through a character that is no digit.
\<close>

lemma validate_phone_number_iff:
  "validate_phone_number number =
     (if (\<not> startswith number ''8'' \<and> \<not> startswith number ''+7'') \<or>
         (startswith number ''+'' \<and> (\<exists>c\<in>set (drop 1 number). \<not> isdigit_char c))
      then Inl AssertionError else Inr number)"
proof (cases "startswith number ''+''")
  case False
  then show ?thesis by (auto simp: validate_phone_number_def)
next
  case True
  then obtain r where r: "number = CHR ''+'' # r" by (auto simp: startswith_Cons)
  show ?thesis
  proof (cases "startswith number ''+7''")
    case False
    with r show ?thesis by (auto simp: validate_phone_number_def startswith_def)
  next
    case True
    with r have "r \<noteq> []" by (auto simp: startswith_def)
    with r True show ?thesis
      by (auto simp: validate_phone_number_def isdigit_def list_all_iff)
  qed
qed

text \<open>
  C6, as stated, fails. The claim has the phone check fail whenever the string starts
  with \<open>+\<close> and some later character is not a decimal digit. The phone number made of
  \<open>+\<close>, \<open>7\<close> and the superscript two (code point 178) starts with \<open>+\<close>, its last character
  is not a decimal digit, and yet \<open>Customer("x", "a@b.com", ...)\<close> is constructed:
  \<open>str.isdigit\<close> counts the superscript as a digit.
\<close>

theorem Customer_init_accepts_superscript:
  "Customer_init ''x'' ''a@b.com'' [CHR ''+'', CHR ''7'', CHR 0xB2] =
     Inr \<lparr>Customer_name = ''x'', email = ''a@b.com'',
          phone_number = [CHR ''+'', CHR ''7'', CHR 0xB2]\<rparr> \<and>
   startswith [CHR ''+'', CHR ''7'', CHR 0xB2] ''+'' \<and>
   (\<exists>c\<in>set (drop 1 [CHR ''+'', CHR ''7'', CHR 0xB2]). \<not> isdecimal_char c)"
  by (simp add: Customer_init_def validate_email_def validate_phone_number_def startswith_def
        isdigit_def isdigit_char_def isdecimal_char_def)

text \<open>
  C6, amended. Constructing a \<open>Customer\<close> fails with the \<open>AssertionError\<close> of a validator,
  and yields no object, exactly when the email does not contain \<open>@\<close>, or the phone number
  starts with neither \<open>8\<close> nor \<open>+7\<close>, or it starts with \<open>+\<close> and some remaining character
  is not a digit in the sense of \<open>str.isdigit\<close> (the decimal digits and the superscripts
  one, two and three); otherwise the object holds the three values as given.
\<close>

theorem Customer_init_fails_iff:
  "Customer_init name address number =
     (if CHR ''@'' \<notin> set address \<or>
         (\<not> startswith number ''8'' \<and> \<not> startswith number ''+7'') \<or>
         (startswith number ''+'' \<and> (\<exists>c\<in>set (drop 1 number). \<not> isdigit_char c))
      then Inl AssertionError
      else Inr \<lparr>Customer_name = name, email = address, phone_number = number\<rparr>)"
  unfolding Customer_init_def validate_phone_number_iff validate_email_def by auto

text \<open>The three constructions that the specification lists, by the theorem.\<close>

theorem Customer_init_examples:
  "Customer_init ''x'' ''no-at-sign'' ''89001234567'' = Inl AssertionError \<and>
   Customer_init ''x'' ''a@b.com'' ''+79001234567'' =
     Inr \<lparr>Customer_name = ''x'', email = ''a@b.com'', phone_number = ''+79001234567''\<rparr> \<and>
   Customer_init ''x'' ''a@b.com'' ''9001234567'' = Inl AssertionError"
  using Customer_init_fails_iff [of "''x''" "''no-at-sign''" "''89001234567''"]
    Customer_init_fails_iff [of "''x''" "''a@b.com''" "''+79001234567''"]
    Customer_init_fails_iff [of "''x''" "''a@b.com''" "''9001234567''"]
  by (simp add: startswith_def isdigit_char_def)

section \<open>Properties of \<open>Transaction\<close>\<close>

subsection \<open>The constructor\<close>

lemma append_books_Books: "append_books acc (map BooksObj bs) = (None, acc @ map BooksObj bs)"
  by (induction bs arbitrary: acc) simp_all

lemma append_books_all: "list_all is_Books bs \<Longrightarrow> append_books acc bs = (None, acc @ bs)"
  by (induction bs arbitrary: acc) simp_all

lemma append_books_Other:
  "OtherObj a \<in> set bs \<Longrightarrow> fst (append_books acc bs) = Some AssertionError"
  by (induction bs arbitrary: acc) auto

lemma Transaction_init_Books:
  "fst (Transaction_init now h c cur (map BooksObj bs) db) =
     Inr \<lparr>transaction_hash = h, customer_id = c, date = now, currency_id = cur,
          books = map BooksObj bs\<rparr>"
  by (simp add: Transaction_init_def append_books_Books Let_def)

lemma Transaction_init_self:
  "fst (Transaction_init now h c cur bs db) = Inr self \<Longrightarrow> transaction_hash self = h"
  by (auto simp: Transaction_init_def Let_def split: prod.splits option.splits)

text \<open>A list with an element that is not a \<open>Books\<close> makes the constructor raise.\<close>

lemma Transaction_init_raises:
  assumes "OtherObj a \<in> set bs"
  shows "fst (Transaction_init now hash customer currency bs db) = Inl AssertionError"
  using append_books_Other [OF assms, of "[]"]
  by (auto simp: Transaction_init_def Let_def split: prod.splits)

subsection \<open>The flush\<close>

lemma flush_books_Books: "flush_books (map BooksObj bs) db = Inr (bs, db)"
  by (induction bs) simp_all

lemma flush_books_error: "flush_books bs db = Inl e \<Longrightarrow> e = IntegrityError"
  by (induction bs db rule: flush_books.induct) (auto split: sum.splits if_splits)

lemma flush_books_tables:
  "flush_books bs db = Inr (rows, db') \<Longrightarrow>
   transaction_table db' = transaction_table db \<and> category_table db' = category_table db \<and>
   description_default db' = description_default db"
proof (induction bs db arbitrary: rows db' rule: flush_books.induct)
  case (1 db)
  then show ?case by simp
next
  case (2 book rest db)
  then show ?case by (auto split: sum.splits)
next
  case (3 book rest db)
  then show ?case by (auto split: sum.splits)
next
  case (4 book rest db)
  then show ?case by (auto split: sum.splits)
next
  case (5 new rest db)
  then show ?case by (fastforce split: sum.splits if_splits)
next
  case (6 a rest db)
  then show ?case by simp
qed

lemma find_append_cases:
  "find P (xs @ ys) = (case find P xs of None \<Rightarrow> find P ys | Some x \<Rightarrow> Some x)"
  by (induction xs) simp_all

lemma find_None: "\<forall>x\<in>set xs. \<not> P x \<Longrightarrow> find P xs = None"
  by (induction xs) simp_all

lemma query_get_hash: "query_get db h = Some t \<Longrightarrow> transaction_hash t = h"
  by (auto simp: query_get_def find_Some_iff)

lemma query_get_None:
  "query_get db h = None \<Longrightarrow> \<not> list_ex (\<lambda>t. transaction_hash t = h) (transaction_table db)"
  by (auto simp: query_get_def find_None_iff list_ex_iff)

lemma session_flush_error: "session_flush self db = Inl e \<Longrightarrow> e = IntegrityError"
  by (auto simp: session_flush_def Let_def split: if_splits sum.splits dest: flush_books_error)

text \<open>A flushed object is the row that the table holds under its hash.\<close>

lemma session_flush_stored:
  assumes "session_flush self db = Inr (row, db')"
  shows "transaction_hash row = transaction_hash self \<and>
         query_get db' (transaction_hash self) = Some row"
proof -
  from assms have free:
    "\<not> list_ex (\<lambda>t. transaction_hash t = transaction_hash self) (transaction_table db)"
    by (auto simp: session_flush_def split: if_splits)
  from assms free obtain rows db1 where fl: "flush_books (books self) db = Inr (rows, db1)"
    and row: "row = \<lparr>transaction_hash = transaction_hash self, customer_id = customer_id self,
        date = date self, currency_id = currency_id self, books = unique_books rows\<rparr>"
    and db': "db' = db1\<lparr>transaction_table := transaction_table db1 @ [row]\<rparr>"
    by (auto simp: session_flush_def Let_def split: sum.splits)
  from flush_books_tables [OF fl] have "transaction_table db1 = transaction_table db" by simp
  with free
  have "find (\<lambda>t. transaction_hash t = transaction_hash self) (transaction_table db1) = None"
    by (simp add: find_None_iff list_ex_iff)
  with row db' show ?thesis by (simp add: query_get_def find_append_cases)
qed

lemma session_flush_Books:
  assumes "query_get db h = None"
  shows "session_flush \<lparr>transaction_hash = h, customer_id = c, date = now, currency_id = cur,
            books = map BooksObj bs\<rparr> db =
         Inr (\<lparr>transaction_hash = h, customer_id = c, date = now, currency_id = cur,
                books = unique_books bs\<rparr>,
              db\<lparr>transaction_table := transaction_table db @
                [\<lparr>transaction_hash = h, customer_id = c, date = now, currency_id = cur,
                  books = unique_books bs\<rparr>]\<rparr>)"
  using query_get_None [OF assms] by (simp add: session_flush_def flush_books_Books Let_def)

text \<open>
  C7. The claim: when some element of the list passed as \<open>books\<close> is not a \<open>Books\<close>, the
  constructor of \<open>Transaction\<close> fails and the \<open>Transaction\<close> is not created. The
  constructor does raise (\<open>Transaction_init_raises\<close>), but the code does not keep the
  second half. On the rows of the \<open>__main__\<close> block, with the book 1 and then an object
  of another class: the \<open>assert\<close> fails on the second element, after the first has been
  appended, and the \<open>Transaction\<close> with the book 1 is in the session. \<open>create_transaction\<close>
  on this list fails in the same way and leaves it there; a later call with the books
  1 and 2, whose hash is the same, returns this record, which lacks the book 2.
\<close>

theorem Transaction_init_leaves_pending:
  "Transaction_init 0 ''c20ad4d76fe97759aa27a0c99bff6710'' 1 1
     [BooksObj book, OtherObj (Some ''2'')] main_db =
     (Inl AssertionError,
      main_db\<lparr>transaction_table :=
        [\<lparr>transaction_hash = ''c20ad4d76fe97759aa27a0c99bff6710'', customer_id = 1, date = 0,
          currency_id = 1, books = [book]\<rparr>]\<rparr>) \<and>
   create_transaction 0 1 1 [BooksObj book, OtherObj (Some ''2'')] main_db =
     (Inl AssertionError,
      main_db\<lparr>transaction_table :=
        [\<lparr>transaction_hash = ''c20ad4d76fe97759aa27a0c99bff6710'', customer_id = 1, date = 0,
          currency_id = 1, books = [book]\<rparr>]\<rparr>) \<and>
   create_transaction 9 1 1 [BooksObj book, BooksObj book2]
     (main_db\<lparr>transaction_table :=
        [\<lparr>transaction_hash = ''c20ad4d76fe97759aa27a0c99bff6710'', customer_id = 1, date = 0,
          currency_id = 1, books = [book]\<rparr>]\<rparr>) =
     (Inr \<lparr>transaction_hash = ''c20ad4d76fe97759aa27a0c99bff6710'', customer_id = 1, date = 0,
           currency_id = 1, books = [book]\<rparr>,
      main_db\<lparr>transaction_table :=
        [\<lparr>transaction_hash = ''c20ad4d76fe97759aa27a0c99bff6710'', customer_id = 1, date = 0,
          currency_id = 1, books = [book]\<rparr>]\<rparr>)"
  by (simp add: Transaction_init_def create_transaction_def compute_transaction_hash_def
        session_flush_def query_get_def Let_def main_db_def book_def book2_def
        str_int_1 str_int_2 md5_hexdigest_12)

subsection \<open>The hash\<close>

lemma join_ids_Books:
  "join_ids (map BooksObj bs) = Inr (concat (map (\<lambda>b. str_int (Books_id b)) bs))"
  by (induction bs) simp_all

lemma str_id_Books:
  "is_Books b \<Longrightarrow> str_id b = Inr (case id_attr b of None \<Rightarrow> ''None'' | Some i \<Rightarrow> str_int i)"
  by (cases b) simp_all

lemma join_ids_all:
  "list_all is_Books bs \<Longrightarrow>
   join_ids bs =
     Inr (concat (map (\<lambda>b. case id_attr b of None \<Rightarrow> ''None'' | Some i \<Rightarrow> str_int i) bs))"
  by (induction bs) (simp_all add: str_id_Books)

lemma compute_transaction_hash_Books:
  "compute_transaction_hash (map BooksObj bs) =
     Inr (md5_hexdigest (concat (map (\<lambda>b. str_int (Books_id b)) bs)))"
  by (simp add: compute_transaction_hash_def join_ids_Books)

lemma compute_transaction_hash_same_ids:
  assumes "map Books_id bs' = map Books_id bs"
  shows "compute_transaction_hash (map BooksObj bs') = compute_transaction_hash (map BooksObj bs)"
proof -
  have "map (\<lambda>b. str_int (Books_id b)) bs' = map str_int (map Books_id bs')" by simp
  also have "\<dots> = map str_int (map Books_id bs)" by (simp only: assms)
  also have "\<dots> = map (\<lambda>b. str_int (Books_id b)) bs" by simp
  finally show ?thesis by (simp only: compute_transaction_hash_Books)
qed

lemma compute_transaction_hash_Nil:
  "compute_transaction_hash [] = Inr ''d41d8cd98f00b204e9800998ecf8427e''"
  by (simp add: compute_transaction_hash_def md5_hexdigest_empty)

subsection \<open>Lookup and creation\<close>

lemma create_transaction_found:
  "compute_transaction_hash bs = Inr h \<Longrightarrow> query_get db h = Some t \<Longrightarrow>
   create_transaction now c cur bs db = (Inr t, db)"
  by (simp add: create_transaction_def)

text \<open>
  What a successful call leaves behind: the returned record is the row stored under
  the hash of the list.
\<close>

lemma create_transaction_stored:
  assumes "create_transaction now c cur bs db = (Inr t, db')"
  shows "compute_transaction_hash bs = Inr (transaction_hash t) \<and>
         query_get db' (transaction_hash t) = Some t"
proof (cases "compute_transaction_hash bs")
  case (Inl e)
  with assms show ?thesis by (simp add: create_transaction_def)
next
  case (Inr h)
  show ?thesis
  proof (cases "query_get db h")
    case (Some u)
    with Inr assms have "u = t" "db' = db" by (simp_all add: create_transaction_def)
    with Some Inr show ?thesis by (simp add: query_get_hash)
  next
    case None
    with Inr assms obtain self db1
      where init: "Transaction_init now h c cur bs db = (Inr self, db1)"
        and fl: "session_flush self db = Inr (t, db')"
      by (auto simp: create_transaction_def split: sum.splits prod.splits)
    from init have "transaction_hash self = h"
      using Transaction_init_self [of now h c cur bs db self] by simp
    with session_flush_stored [OF fl] Inr show ?thesis by simp
  qed
qed

lemma create_transaction_again:
  assumes "create_transaction now c cur bs db = (Inr t, db')"
    and "compute_transaction_hash bs' = compute_transaction_hash bs"
  shows "create_transaction now' c' cur' bs' db' = (Inr t, db')"
  using create_transaction_stored [OF assms(1)] assms(2)
  by (simp add: create_transaction_found)

text \<open>On a list of flushed books: the stored record, or a new one with these books.\<close>

lemma create_transaction_Books_hash:
  assumes "compute_transaction_hash (map BooksObj bs) = Inr h"
  shows "create_transaction now c cur (map BooksObj bs) db =
     (case query_get db h of
        Some t \<Rightarrow> (Inr t, db)
      | None \<Rightarrow>
          (Inr \<lparr>transaction_hash = h, customer_id = c, date = now, currency_id = cur,
                books = unique_books bs\<rparr>,
           db\<lparr>transaction_table := transaction_table db @
             [\<lparr>transaction_hash = h, customer_id = c, date = now, currency_id = cur,
               books = unique_books bs\<rparr>]\<rparr>))"
proof (cases "query_get db h")
  case None
  obtain r db1 where init: "Transaction_init now h c cur (map BooksObj bs) db = (r, db1)"
    by (cases "Transaction_init now h c cur (map BooksObj bs) db")
  with Transaction_init_Books [of now h c cur bs db]
  have r: "r = Inr \<lparr>transaction_hash = h, customer_id = c, date = now, currency_id = cur,
          books = map BooksObj bs\<rparr>" by simp
  show ?thesis
    using None init r session_flush_Books [OF None] assms
    by (simp add: create_transaction_def)
next
  case (Some t)
  with assms show ?thesis by (simp add: create_transaction_def)
qed

lemma create_transaction_Books_succeeds:
  "\<exists>t db'. create_transaction now c cur (map BooksObj bs) db = (Inr t, db')"
  by (simp add: create_transaction_Books_hash [OF compute_transaction_hash_Books]
        split: option.splits)

text \<open>
  On a list of \<open>Books\<close> objects, in whatever state: the call returns a record with the
  hash of the list, or the commit fails on a transient book whose \<open>ISBN\<close> is taken.
\<close>

lemma create_transaction_all:
  assumes "list_all is_Books bs" and "compute_transaction_hash bs = Inr h"
  shows "case fst (create_transaction now c cur bs db) of
           Inl e \<Rightarrow> e = IntegrityError
         | Inr t \<Rightarrow> transaction_hash t = h"
proof (cases "query_get db h")
  case (Some u)
  with assms show ?thesis by (simp add: create_transaction_def query_get_hash)
next
  case None
  let ?self = "\<lparr>transaction_hash = h, customer_id = c, date = now, currency_id = cur,
      books = bs\<rparr>"
  obtain db1 where init: "Transaction_init now h c cur bs db = (Inr ?self, db1)"
    using assms(1) by (simp add: Transaction_init_def append_books_all Let_def)
  show ?thesis
  proof (cases "session_flush ?self db")
    case (Inl e)
    with None assms init session_flush_error [OF Inl] show ?thesis
      by (simp add: create_transaction_def)
  next
    case (Inr p)
    obtain row db2 where p: "p = (row, db2)" by (cases p)
    with Inr session_flush_stored [of ?self db row db2] have "transaction_hash row = h" by simp
    with None assms init Inr p show ?thesis by (simp add: create_transaction_def)
  qed
qed

text \<open>
  C2, as stated, fails. \<open>book4\<close> is a \<open>Books\<close> that has not been flushed, its \<open>id\<close> is
  \<open>None\<close>. On the rows of the \<open>__main__\<close> block, \<open>create_transaction\<close> with the list of
  this one book hashes the text \<open>None\<close>; the commit then inserts the book with the id 4,
  and the stored \<open>Transaction\<close> carries the digest of \<open>None\<close>, not the digest of the
  decimal rendering \<open>4\<close> of its book's id.
\<close>

theorem hash_of_unflushed_book:
  "\<not> isl (fst (create_transaction 0 1 1 [NewBooksObj book4] main_db)) \<and>
   transaction_hash (projr (fst (create_transaction 0 1 1 [NewBooksObj book4] main_db))) =
     ''6adf97f83acf6453d4a6a4b1070f3754'' \<and>
   map Books_id (books (projr (fst (create_transaction 0 1 1 [NewBooksObj book4] main_db)))) =
     [4] \<and>
   map Books_id (books_table (snd (create_transaction 0 1 1 [NewBooksObj book4] main_db))) =
     [1, 2, 3, 4] \<and>
   md5_hexdigest ''None'' = ''6adf97f83acf6453d4a6a4b1070f3754'' \<and>
   md5_hexdigest (str_int 4) = ''a87ff679a2f3e71d9181a67b7542122c''"
  by (simp add: create_transaction_def compute_transaction_hash_def Transaction_init_def
        session_flush_def query_get_def Let_def main_db_def insert_row_def next_id_def
        book_def book2_def book3_def book4_def Books_init_def
        str_int_4 md5_hexdigest_None md5_hexdigest_4)

text \<open>
  C2, amended. For every list of \<open>Books\<close> objects, the hash that \<open>create_transaction\<close>
  computes is the hexadecimal MD5 digest of the encoded concatenation of \<open>str(b.id)\<close>
  over the books in the order of the list, with no sorting: the decimal rendering of
  the id for a book that has its id (\<open>str_nat_value\<close>), the text \<open>None\<close> for one that
  has not been flushed. A \<open>Transaction\<close> that the call returns carries this hash (the
  call fails only when the store refuses a new book), and on persistent books the call
  always returns one.
\<close>

theorem transaction_hash_md5_of_ids:
  assumes "list_all is_Books bs"
  shows "compute_transaction_hash bs =
     Inr (hexdigest (md5_digest (encode
       (concat (map (\<lambda>b. case id_attr b of None \<Rightarrow> ''None'' | Some i \<Rightarrow> str_int i) bs))))) \<and>
   (case fst (create_transaction now customer currency bs db) of
      Inl e \<Rightarrow> e = IntegrityError
    | Inr t \<Rightarrow>
        transaction_hash t =
          hexdigest (md5_digest (encode
            (concat (map (\<lambda>b. case id_attr b of None \<Rightarrow> ''None'' | Some i \<Rightarrow> str_int i) bs))))) \<and>
   (\<exists>t db'. create_transaction now customer currency (map BooksObj ps) db = (Inr t, db') \<and>
      compute_transaction_hash (map BooksObj ps) = Inr (transaction_hash t) \<and>
      transaction_hash t =
        hexdigest (md5_digest (encode (concat (map (\<lambda>b. str_int (Books_id b)) ps)))))"
proof -
  have h: "compute_transaction_hash bs =
     Inr (hexdigest (md5_digest (encode
       (concat (map (\<lambda>b. case id_attr b of None \<Rightarrow> ''None'' | Some i \<Rightarrow> str_int i) bs)))))"
    using assms by (simp add: compute_transaction_hash_def join_ids_all md5_hexdigest_def)
  obtain t db' where first:
    "create_transaction now customer currency (map BooksObj ps) db = (Inr t, db')"
    using create_transaction_Books_succeeds by blast
  from create_transaction_stored [OF first]
  have s: "compute_transaction_hash (map BooksObj ps) = Inr (transaction_hash t)" by simp
  then have "transaction_hash t =
      hexdigest (md5_digest (encode (concat (map (\<lambda>b. str_int (Books_id b)) ps))))"
    by (simp add: compute_transaction_hash_Books md5_hexdigest_def)
  with first s h create_transaction_all [OF assms h, of now customer currency db]
  show ?thesis by blast
qed

text \<open>
  The persistent book 1, a detached and a pending object for the book 2 and the
  transient \<open>book4\<close>: the first two lists hash \<open>12\<close>, the last two \<open>1None\<close>.
\<close>

theorem transaction_hash_md5_of_ids_witness:
  "compute_transaction_hash [BooksObj book, DetachedBooksObj book2] =
     Inr ''c20ad4d76fe97759aa27a0c99bff6710'' \<and>
   compute_transaction_hash [BooksObj book, PendingBooksObj book2] =
     Inr ''d4a389874b579a227b4b7615d9d43e2b'' \<and>
   compute_transaction_hash [BooksObj book, NewBooksObj book4] =
     Inr ''d4a389874b579a227b4b7615d9d43e2b''"
  using transaction_hash_md5_of_ids [of "[BooksObj book, DetachedBooksObj book2]"]
    transaction_hash_md5_of_ids [of "[BooksObj book, PendingBooksObj book2]"]
    transaction_hash_md5_of_ids [of "[BooksObj book, NewBooksObj book4]"]
    md5_hexdigest_12 md5_hexdigest_1None
  by (simp add: book_def book2_def str_int_1 str_int_2 md5_hexdigest_def)

text \<open>
  C1. Two calls of \<open>create_transaction\<close> with the same customer, the same currency and
  lists of \<open>Books\<close> with the same sequence of ids (at whatever times): the first call
  succeeds, the second returns the very record of the first and leaves the store as
  the first call left it (no new row); the record carries the hash of the id sequence
  and is the row stored under that hash.
\<close>

theorem create_transaction_idempotent:
  assumes "map Books_id bs' = map Books_id bs"
  shows "\<exists>t db'.
     create_transaction now customer currency (map BooksObj bs) db = (Inr t, db') \<and>
     create_transaction now' customer currency (map BooksObj bs') db' = (Inr t, db') \<and>
     transaction_hash t = md5_hexdigest (concat (map str_int (map Books_id bs))) \<and>
     query_get db' (transaction_hash t) = Some t"
proof -
  obtain t db' where first:
    "create_transaction now customer currency (map BooksObj bs) db = (Inr t, db')"
    using create_transaction_Books_succeeds by blast
  have again: "create_transaction now' customer currency (map BooksObj bs') db' = (Inr t, db')"
    using first compute_transaction_hash_same_ids [OF assms] by (rule create_transaction_again)
  have stored: "compute_transaction_hash (map BooksObj bs) = Inr (transaction_hash t)"
    "query_get db' (transaction_hash t) = Some t"
    using create_transaction_stored [OF first] by simp_all
  from stored(1) have "transaction_hash t = md5_hexdigest (concat (map str_int (map Books_id bs)))"
    by (simp add: compute_transaction_hash_Books comp_def)
  with first again stored(2) show ?thesis by blast
qed

text \<open>
  On the rows of the \<open>__main__\<close> block: the first call stores a row under the digest of
  \<open>12\<close>, and a second call, later and on a reloaded first book, returns it.
\<close>

theorem create_transaction_idempotent_witness:
  "\<exists>t db'.
     create_transaction 0 1 1 [BooksObj book, BooksObj book2] main_db = (Inr t, db') \<and>
     create_transaction 7 1 1
       [BooksObj (book\<lparr>description := Some ''reloaded''\<rparr>), BooksObj book2] db' = (Inr t, db') \<and>
     transaction_hash t = ''c20ad4d76fe97759aa27a0c99bff6710'' \<and>
     query_get db' (transaction_hash t) = Some t"
  using create_transaction_idempotent
    [of "[book\<lparr>description := Some ''reloaded''\<rparr>, book2]" "[book, book2]" 0 1 1 main_db 7]
  by (simp add: book_def book2_def str_int_1 str_int_2 md5_hexdigest_12)

text \<open>
  C4. When the hash derived from the list is the key of a stored \<open>Transaction\<close>,
  \<open>create_transaction\<close> returns that record as it is and leaves the store as it was,
  whatever customer, currency, time and list elements the caller supplied.
\<close>

theorem create_transaction_returns_existing:
  assumes "compute_transaction_hash bs = Inr h" and "query_get db h = Some t"
  shows "create_transaction now customer currency bs db = (Inr t, db)"
  using assms by (simp add: create_transaction_def)

text \<open>
  A store that holds a transaction of customer 1 over the books 1 and 2: a call for
  customer 2 in currency 7, whose list holds an object that is not a \<open>Books\<close> (its \<open>id\<close>
  prints as \<open>1\<close>) and the book 2, returns the stored record and changes nothing.
\<close>

theorem create_transaction_returns_existing_witness:
  "create_transaction 99 2 7 [OtherObj (Some ''1''), BooksObj book2]
     (main_db\<lparr>transaction_table :=
        [\<lparr>transaction_hash = ''c20ad4d76fe97759aa27a0c99bff6710'', customer_id = 1, date = 5,
          currency_id = 1, books = [book, book2]\<rparr>]\<rparr>) =
     (Inr \<lparr>transaction_hash = ''c20ad4d76fe97759aa27a0c99bff6710'', customer_id = 1, date = 5,
           currency_id = 1, books = [book, book2]\<rparr>,
      main_db\<lparr>transaction_table :=
        [\<lparr>transaction_hash = ''c20ad4d76fe97759aa27a0c99bff6710'', customer_id = 1, date = 5,
          currency_id = 1, books = [book, book2]\<rparr>]\<rparr>)"
  using create_transaction_returns_existing
    [of "[OtherObj (Some ''1''), BooksObj book2]" "''c20ad4d76fe97759aa27a0c99bff6710''"
        "main_db\<lparr>transaction_table :=
           [\<lparr>transaction_hash = ''c20ad4d76fe97759aa27a0c99bff6710'', customer_id = 1, date = 5,
             currency_id = 1, books = [book, book2]\<rparr>]\<rparr>"
        "\<lparr>transaction_hash = ''c20ad4d76fe97759aa27a0c99bff6710'', customer_id = 1, date = 5,
          currency_id = 1, books = [book, book2]\<rparr>" 99 2 7]
  by (simp add: compute_transaction_hash_def query_get_def book2_def
        str_int_2 md5_hexdigest_12)

subsection \<open>The order of the books\<close>

text \<open>
  C5, as stated, fails. The books with the ids 1 and 11 are distinct, and the lists that
  hold them in the two orders get the same hash: both join to \<open>111\<close>.
\<close>

theorem hash_same_for_ids_1_11:
  "book \<noteq> book\<lparr>Books_id := 11\<rparr> \<and>
   compute_transaction_hash [BooksObj book, BooksObj (book\<lparr>Books_id := 11\<rparr>)] =
   compute_transaction_hash [BooksObj (book\<lparr>Books_id := 11\<rparr>), BooksObj book]"
  by (simp add: compute_transaction_hash_def book_def str_int_1 str_int_11)

text \<open>
  C5, amended. The hashes of \<open>[a, b]\<close> and \<open>[b, a]\<close> are the digests of
  \<open>str(a.id) + str(b.id)\<close> and of \<open>str(b.id) + str(a.id)\<close>: unless MD5 collides on these
  two strings, the hashes differ exactly when the two strings differ.
\<close>

theorem hash_order_sensitive:
  assumes "md5_hexdigest (str_int (Books_id a) @ str_int (Books_id b)) =
           md5_hexdigest (str_int (Books_id b) @ str_int (Books_id a)) \<longrightarrow>
           str_int (Books_id a) @ str_int (Books_id b) =
           str_int (Books_id b) @ str_int (Books_id a)"
  shows "compute_transaction_hash [BooksObj a, BooksObj b] \<noteq>
         compute_transaction_hash [BooksObj b, BooksObj a] \<longleftrightarrow>
         str_int (Books_id a) @ str_int (Books_id b) \<noteq>
         str_int (Books_id b) @ str_int (Books_id a)"
  using assms by (auto simp: compute_transaction_hash_def)

text \<open>The books 1 and 2: the digests of \<open>12\<close> and \<open>21\<close> differ, and so do the hashes.\<close>

theorem hash_order_sensitive_witness:
  "compute_transaction_hash [BooksObj book, BooksObj book2] \<noteq>
   compute_transaction_hash [BooksObj book2, BooksObj book]"
  using hash_order_sensitive [of book book2]
  by (simp add: book_def book2_def str_int_1 str_int_2
        md5_hexdigest_12 md5_hexdigest_21)

subsection \<open>The empty list\<close>

text \<open>
  C8, as stated, fails. On the rows of the \<open>__main__\<close> block, \<open>create_transaction\<close> with
  an empty list does not fail: it stores and returns a \<open>Transaction\<close> with no books,
  under the digest of the empty string.
\<close>

theorem create_transaction_empty_list_persists:
  "create_transaction 0 1 1 [] main_db =
     (Inr \<lparr>transaction_hash = ''d41d8cd98f00b204e9800998ecf8427e'', customer_id = 1,
           date = 0, currency_id = 1, books = []\<rparr>,
      main_db\<lparr>transaction_table :=
        [\<lparr>transaction_hash = ''d41d8cd98f00b204e9800998ecf8427e'', customer_id = 1,
          date = 0, currency_id = 1, books = []\<rparr>]\<rparr>)"
  using create_transaction_Books_hash [of "[]" _ 0 1 1 main_db] compute_transaction_hash_Nil
  by (simp add: query_get_def main_db_def)

text \<open>
  C8, amended. \<open>create_transaction\<close> with an empty list never fails: it returns the
  \<open>Transaction\<close> stored under the digest of the empty string when there is one, and
  otherwise constructs, stores and returns a \<open>Transaction\<close> with that hash and an empty
  list of books.
\<close>

theorem create_transaction_empty_list:
  "create_transaction now customer currency [] db =
     (case query_get db ''d41d8cd98f00b204e9800998ecf8427e'' of
        Some t \<Rightarrow> (Inr t, db)
      | None \<Rightarrow>
          (Inr \<lparr>transaction_hash = ''d41d8cd98f00b204e9800998ecf8427e'',
                customer_id = customer, date = now, currency_id = currency, books = []\<rparr>,
           db\<lparr>transaction_table := transaction_table db @
             [\<lparr>transaction_hash = ''d41d8cd98f00b204e9800998ecf8427e'',
               customer_id = customer, date = now, currency_id = currency, books = []\<rparr>]\<rparr>))"
  using create_transaction_Books_hash [of "[]" _ now customer currency db]
    compute_transaction_hash_Nil
  by (simp split: option.splits)

subsection \<open>Different books, one hash\<close>

text \<open>
  C10. Whatever their other columns, books with the ids 1 and 23 and books with the ids
  12 and 3 have different multisets of ids and the same hash, the digest of \<open>123\<close>.
  \<open>create_transaction\<close> on the first list succeeds, and the record it returns is the row
  stored under that hash: the one that was there before, or else a new row of this
  customer, currency and time with the two books of the first list, appended to the
  table. A later call on the second list, for any customer and currency, returns this
  very record and stores nothing.
\<close>

theorem transaction_hash_not_injective:
  "mset (map Books_id [a\<lparr>Books_id := 1\<rparr>, b\<lparr>Books_id := 23\<rparr>]) \<noteq>
   mset (map Books_id [c\<lparr>Books_id := 12\<rparr>, d\<lparr>Books_id := 3\<rparr>]) \<and>
   (\<exists>t db'.
      create_transaction now customer currency
        [BooksObj (a\<lparr>Books_id := 1\<rparr>), BooksObj (b\<lparr>Books_id := 23\<rparr>)] db = (Inr t, db') \<and>
      create_transaction now' customer' currency'
        [BooksObj (c\<lparr>Books_id := 12\<rparr>), BooksObj (d\<lparr>Books_id := 3\<rparr>)] db' = (Inr t, db') \<and>
      transaction_hash t = ''202cb962ac59075b964b07152d234b70'' \<and>
      query_get db' (transaction_hash t) = Some t \<and>
      (case query_get db ''202cb962ac59075b964b07152d234b70'' of
         Some u \<Rightarrow> t = u \<and> db' = db
       | None \<Rightarrow>
           customer_id t = customer \<and> currency_id t = currency \<and> date t = now \<and>
           set (books t) = {a\<lparr>Books_id := 1\<rparr>, b\<lparr>Books_id := 23\<rparr>} \<and>
           db' = db\<lparr>transaction_table := transaction_table db @ [t]\<rparr>))"
proof -
  let ?bs1 = "[a\<lparr>Books_id := 1\<rparr>, b\<lparr>Books_id := 23\<rparr>]"
  let ?bs2 = "[c\<lparr>Books_id := 12\<rparr>, d\<lparr>Books_id := 3\<rparr>]"
  let ?h = "''202cb962ac59075b964b07152d234b70''"
  have h1: "compute_transaction_hash (map BooksObj ?bs1) = Inr ?h"
    by (simp add: compute_transaction_hash_def str_int_1 str_int_23 md5_hexdigest_123)
  have h2: "compute_transaction_hash (map BooksObj ?bs2) = Inr ?h"
    by (simp add: compute_transaction_hash_def str_int_12 str_int_3 md5_hexdigest_123)
  obtain t db' where first:
    "create_transaction now customer currency (map BooksObj ?bs1) db = (Inr t, db')"
    using create_transaction_Books_succeeds by blast
  have second: "create_transaction now' customer' currency' (map BooksObj ?bs2) db' = (Inr t, db')"
    using first by (rule create_transaction_again) (simp only: h1 h2)
  from create_transaction_stored [OF first] h1
  have stored: "transaction_hash t = ?h" "query_get db' (transaction_hash t) = Some t"
    by simp_all
  have how: "(case query_get db ?h of
         Some u \<Rightarrow> t = u \<and> db' = db
       | None \<Rightarrow>
           customer_id t = customer \<and> currency_id t = currency \<and> date t = now \<and>
           set (books t) = set ?bs1 \<and>
           db' = db\<lparr>transaction_table := transaction_table db @ [t]\<rparr>)"
    using first create_transaction_Books_hash [OF h1, of now customer currency db]
    by (auto split: option.splits)
  have "mset (map Books_id ?bs1) \<noteq> mset (map Books_id ?bs2)"
  proof
    assume "mset (map Books_id ?bs1) = mset (map Books_id ?bs2)"
    then have "set_mset (mset (map Books_id ?bs1)) = set_mset (mset (map Books_id ?bs2))"
      by simp
    then show False by auto
  qed
  with first second stored how show ?thesis by (auto split: option.splits)
qed

subsection \<open>\<open>total_cost\<close>\<close>





section \<open>Properties of \<open>Books\<close>\<close>

text \<open>
  C9. When no row of the table \<open>category\<close> has the given name, \<open>add_book\<close> fails with
  the \<open>NotFound\<close> of \<open>first_or_404\<close> and leaves the store as it was: no \<open>Books\<close> row is
  written.
\<close>

theorem add_book_unknown_category:
  assumes "\<forall>c\<in>set (category_table db). Category_name c \<noteq> category"
  shows "add_book isbn category cost' currency db = (Inl NotFound, db)"
  using assms by (simp add: add_book_def first_or_404_def find_None)

theorem add_book_unknown_category_witness:
  "add_book ''01-0101-0200'' ''poetry'' 0x407f400000000000 1 main_db = (Inl NotFound, main_db)"
  using add_book_unknown_category [of main_db "''poetry''"]
  by (simp add: main_db_def horrors_def business_def comix_def)

text \<open>
  The next key is one more than the largest, also below zero. With a category that
  exists, \<open>add_book\<close> inserts the row with the next key and the default \<open>description\<close>:
  the book 4 in the category \<open>comix\<close>.
\<close>

lemma next_id_negative: "next_id [book\<lparr>Books_id := - 5\<rparr>] = - 4"
  by (simp add: next_id_def)

lemma add_book_inserts:
  "add_book ''01-0101-0120'' ''comix'' 0x4033fd70a3d70a3d 1 main_db =
     (Inr (),
      main_db\<lparr>books_table :=
        [book, book2, book3,
         \<lparr>ISBN = ''01-0101-0120'', category_id = 3, cost = 0x4033fd70a3d70a3d,
          description = Some main_default, Books_currency_id = 1, Books_id = 4\<rparr>]\<rparr>)"
  by (simp add: add_book_def first_or_404_def main_db_def horrors_def business_def comix_def
        Books_init_def insert_row_def next_id_def book_def book2_def book3_def)

end
